theory Spec2Isabelle
  imports Main "HOL-Library.Word"
begin

section \<open>Machine integers and Go errors\<close>

text \<open>
  Go's \<open>uint64\<close> is a 64-bit word: \<open>+\<close>, \<open>-\<close> and \<open>*\<close> wrap modulo \<open>2 ^ 64\<close>, and
  \<open>div\<close> is the truncating unsigned division. An \<open>error\<close> value is represented by its
  message (what \<open>Error()\<close> returns); the nil error is \<open>None\<close> of \<open>error option\<close>.
\<close>

type_synonym u64 = "64 word"
type_synonym error = string

text \<open>Disk size constants of \<open>diskspace.go\<close> (\<open>1 << (10 * iota)\<close>).\<close>

definition KB :: u64 where "KB = push_bit 10 1"
definition MB :: u64 where "MB = push_bit 20 1"
definition GB :: u64 where "GB = push_bit 30 1"

section \<open>IEEE 754 binary64 (\<open>float64\<close>)\<close>

text \<open>
  \<open>Finite m e\<close> stands for the number \<open>m * 2 ^ e\<close>. Every float64 that is neither a NaN
  nor an infinity has this form. The two zeros are not told apart: the code only compares
  floats and divides non-negative ones, and IEEE comparison treats both zeros alike.
\<close>

datatype float64 = NaN | PosInf | NegInf | Finite int int

text \<open>Comparison of \<open>m1 * 2 ^ e1\<close> with \<open>m2 * 2 ^ e2\<close> after aligning the exponents.\<close>

definition dyadic_less :: "int \<Rightarrow> int \<Rightarrow> int \<Rightarrow> int \<Rightarrow> bool" where
  "dyadic_less m1 e1 m2 e2 =
     (m1 * 2 ^ nat (e1 - min e1 e2) < m2 * 2 ^ nat (e2 - min e1 e2))"

definition dyadic_le :: "int \<Rightarrow> int \<Rightarrow> int \<Rightarrow> int \<Rightarrow> bool" where
  "dyadic_le m1 e1 m2 e2 =
     (m1 * 2 ^ nat (e1 - min e1 e2) \<le> m2 * 2 ^ nat (e2 - min e1 e2))"

text \<open>Go's \<open><\<close>, \<open><=\<close> and \<open>>=\<close> on float64: every comparison with a NaN is false.\<close>

fun f64_lt :: "float64 \<Rightarrow> float64 \<Rightarrow> bool" where
  "f64_lt NaN _ = False"
| "f64_lt _ NaN = False"
| "f64_lt PosInf _ = False"
| "f64_lt _ PosInf = True"
| "f64_lt NegInf NegInf = False"
| "f64_lt NegInf (Finite m e) = True"
| "f64_lt (Finite m e) NegInf = False"
| "f64_lt (Finite m1 e1) (Finite m2 e2) = dyadic_less m1 e1 m2 e2"

fun f64_le :: "float64 \<Rightarrow> float64 \<Rightarrow> bool" where
  "f64_le NaN _ = False"
| "f64_le _ NaN = False"
| "f64_le NegInf _ = True"
| "f64_le _ NegInf = False"
| "f64_le PosInf PosInf = True"
| "f64_le PosInf (Finite m e) = False"
| "f64_le (Finite m e) PosInf = True"
| "f64_le (Finite m1 e1) (Finite m2 e2) = dyadic_le m1 e1 m2 e2"

definition f64_ge :: "float64 \<Rightarrow> float64 \<Rightarrow> bool" where
  "f64_ge a b = f64_le b a"

text \<open>\<open>log2n n\<close> is the position of the highest set bit of \<open>n\<close>.\<close>

fun log2n :: "nat \<Rightarrow> nat" where
  "log2n n = (if n < 2 then 0 else Suc (log2n (n div 2)))"

declare log2n.simps [simp del]

text \<open>The integer nearest to \<open>a / b\<close>, a tie going to the even one.\<close>

definition rne_div :: "nat \<Rightarrow> nat \<Rightarrow> nat" where
  "rne_div a b =
     (let q = a div b; r = a mod b
      in if 2 * r < b then q else if b < 2 * r then q + 1
         else if even q then q else q + 1)"

text \<open>The exponent of the leading bit of \<open>a / b\<close>, for positive \<open>a\<close> and \<open>b\<close>.\<close>

definition ilog2_quot :: "nat \<Rightarrow> nat \<Rightarrow> int" where
  "ilog2_quot a b =
     (let e0 = int (log2n a) - int (log2n b)
      in if b * 2 ^ nat e0 \<le> a * 2 ^ nat (- e0) then e0 else e0 - 1)"

text \<open>
  \<open>round_quot neg a b s\<close> is the float64 nearest to \<open>a / b * 2 ^ s\<close> (negated when \<open>neg\<close>),
  for positive \<open>a\<close> and \<open>b\<close>: 53 significant bits, ties to even, the exponent of the last
  place not below -1074 (subnormal numbers), and an infinity from \<open>2 ^ 1024\<close> on.
\<close>

definition round_quot :: "bool \<Rightarrow> nat \<Rightarrow> nat \<Rightarrow> int \<Rightarrow> float64" where
  "round_quot neg a b s =
     (let u = max (ilog2_quot a b + s) (- 1022) - 52;
          m = (if u \<le> s then rne_div (a * 2 ^ nat (s - u)) b
               else rne_div a (b * 2 ^ nat (u - s)))
      in if 971 < u \<or> (u = 971 \<and> 2 ^ 53 \<le> m)
         then (if neg then NegInf else PosInf)
         else Finite (if neg then - int m else int m) u)"

text \<open>The conversion \<open>float64(x)\<close> of a \<open>uint64\<close>: exact below \<open>2 ^ 53\<close>, rounded above.\<close>

definition f64_of_u64 :: "u64 \<Rightarrow> float64" where
  "f64_of_u64 w =
     (if unat w < 2 ^ 53 then Finite (int (unat w)) 0 else round_quot False (unat w) 1 0)"

text \<open>Go's \<open>/\<close> on float64. Dividing by zero does not panic: it gives an infinity or a NaN.\<close>

fun f64_div :: "float64 \<Rightarrow> float64 \<Rightarrow> float64" where
  "f64_div NaN _ = NaN"
| "f64_div _ NaN = NaN"
| "f64_div (Finite m1 e1) (Finite m2 e2) =
     (if m2 = 0 then (if m1 = 0 then NaN else if 0 < m1 then PosInf else NegInf)
      else if m1 = 0 then Finite 0 0
      else round_quot ((m1 < 0) \<noteq> (m2 < 0)) (nat \<bar>m1\<bar>) (nat \<bar>m2\<bar>) (e1 - e2))"
| "f64_div (Finite m e) PosInf = Finite 0 0"
| "f64_div (Finite m e) NegInf = Finite 0 0"
| "f64_div PosInf (Finite m e) = (if m < 0 then NegInf else PosInf)"
| "f64_div NegInf (Finite m e) = (if m < 0 then PosInf else NegInf)"
| "f64_div PosInf PosInf = NaN"
| "f64_div PosInf NegInf = NaN"
| "f64_div NegInf PosInf = NaN"
| "f64_div NegInf NegInf = NaN"

section \<open>The usage prober (\<open>statfs.go\<close>)\<close>

text \<open>
  \<open>Statfs_t\<close> holds the fields of the system's structure that \<open>diskUsage\<close> reads. The type of
  \<open>Bsize\<close> depends on the platform (\<open>int64\<close> on linux/amd64, \<open>uint32\<close> on darwin), so the
  field holds its integer value and \<open>uint64(fs.Bsize)\<close> is \<open>word_of_int\<close>.
\<close>

record Statfs_t =
  Blocks :: u64
  Bfree :: u64
  Bavail :: u64
  Bsize :: int

record diskStatus =
  all :: u64
  available :: u64
  free :: u64
  used :: u64

text \<open>
  The system call is a parameter: \<open>sys path w\<close> reads the world \<open>w\<close> and gives either the
  error or the filled structure, and the next world. \<open>os\<close> is \<open>runtime.GOOS\<close>.
\<close>

type_synonym 'w statfs = "string \<Rightarrow> 'w \<Rightarrow> (error + Statfs_t) \<times> 'w"

definition diskUsage :: "string \<Rightarrow> 'w statfs \<Rightarrow> string \<Rightarrow> 'w \<Rightarrow> (error + diskStatus) \<times> 'w" where
  "diskUsage os sys path w =
     (case sys path w of
        (Inl err, w') \<Rightarrow> (Inl err, w')
      | (Inr fs, w') \<Rightarrow>
          (let disk = \<lparr>all = Blocks fs * word_of_int (Bsize fs),
                       available = Bavail fs * word_of_int (Bsize fs),
                       free = Bfree fs * word_of_int (Bsize fs),
                       used = 0\<rparr>
           in if os = ''darwin''
              then (Inr (disk\<lparr>used := all disk - available disk\<rparr>), w')
              else (Inr (disk\<lparr>used := all disk - free disk\<rparr>), w')))"

section \<open>The maintainer (\<open>diskspace.go\<close>)\<close>

text \<open>
  \<open>CheckInterval\<close> is a \<open>time.Duration\<close>, a signed count of nanoseconds. \<open>Clean\<close> is a Go
  function value: \<open>None\<close> is nil, and a callback reads and changes the world and returns its
  error (a callback that panics or never returns is outside the model). \<open>Logger\<close> is a
  pointer, \<open>None\<close> being nil; a call on a nil logger or a nil callback panics. The mutex is
  left out: the model runs one cycle at a time.
\<close>

datatype logger = NewNop | Custom

record 'w Maintainer =
  Volume :: string
  CheckInterval :: int
  Threshold :: float64
  Clean :: "('w \<Rightarrow> error option \<times> 'w) option"
  Logger :: "logger option"

definition defaultVolume :: string where
  "defaultVolume = ''/''"

text \<open>The constant \<open>0.9\<close>, rounded to float64 as the compiler does.\<close>

definition defaultThreshold :: float64 where
  "defaultThreshold = round_quot False 9 10 0"

definition defaultCheckInterval :: int where
  "defaultCheckInterval = 10 * (60 * 1000000000)"

text \<open>
  What a run does to its surroundings, in order: the calls of \<open>diskUsage\<close> and of \<open>Clean\<close>,
  the calls on the logger with their fields, and the ticker.
\<close>

datatype event =
    Probe string
  | CleanCall
  | LogStart string float64 int
  | LogWarn u64 u64 float64 float64
  | LogCleaned u64 u64
  | LogError error
  | TickerStart int
  | TickerStop

datatype 'a outcome = Returns 'a | Panics string

definition nilDeref :: string where
  "nilDeref = ''invalid memory address or nil pointer dereference''"

text \<open>One check-and-maintain cycle: its result, what it did, and the world after it.\<close>

definition maintainDiskUsage ::
  "string \<Rightarrow> 'w statfs \<Rightarrow> 'w Maintainer \<Rightarrow> 'w \<Rightarrow> error option outcome \<times> event list \<times> 'w" where
  "maintainDiskUsage os sys m w =
     (case diskUsage os sys (Volume m) w of
        (Inl err, w1) \<Rightarrow> (Returns (Some err), [Probe (Volume m)], w1)
      | (Inr du, w1) \<Rightarrow>
          (let totalMB = all du div MB;
               usedMB = used du div MB;
               usedRatio = f64_div (f64_of_u64 usedMB) (f64_of_u64 totalMB);
               t1 = [Probe (Volume m)]
           in if f64_lt usedRatio (Threshold m) then (Returns None, t1, w1)
              else
                (case Logger m of
                   None \<Rightarrow> (Panics nilDeref, t1, w1)
                 | Some lg \<Rightarrow>
                     (let t2 = t1 @ [LogWarn totalMB usedMB usedRatio (Threshold m)]
                      in case Clean m of
                           None \<Rightarrow> (Panics nilDeref, t2, w1)
                         | Some clean \<Rightarrow>
                             (case clean w1 of
                                (Some err, w2) \<Rightarrow>
                                  (Returns (Some (''clean: '' @ err)), t2 @ [CleanCall], w2)
                              | (None, w2) \<Rightarrow>
                                  (case diskUsage os sys (Volume m) w2 of
                                     (Inl err, w3) \<Rightarrow>
                                       (Returns (Some err),
                                        t2 @ [CleanCall, Probe (Volume m)], w3)
                                   | (Inr du2, w3) \<Rightarrow>
                                       (let newUsedMB = used du2 div MB;
                                            usedDiff = usedMB - newUsedMB
                                        in (Returns None,
                                            t2 @ [CleanCall, Probe (Volume m),
                                                  LogCleaned newUsedMB usedDiff],
                                            w3))))))))"

text \<open>The error branch of both callers of the cycle: \<open>m.Logger.Error\<close> when \<open>err != nil\<close>.\<close>

definition logError :: "error option \<Rightarrow> event list" where
  "logError err = (case err of None \<Rightarrow> [] | Some e \<Rightarrow> [LogError e])"

text \<open>
  The \<open>select\<close> of the loop takes what is ready: a tick or the cancellation. The sequence of
  what it takes is an input; when it is used up the loop is still waiting.
\<close>

datatype ready = Tick | Done

datatype run = Cancelled | Panicked string | Waiting

fun maintainLoop ::
  "string \<Rightarrow> 'w statfs \<Rightarrow> 'w Maintainer \<Rightarrow> ready list \<Rightarrow> 'w \<Rightarrow> run \<times> event list \<times> 'w" where
  "maintainLoop os sys m [] w = (Waiting, [], w)"
| "maintainLoop os sys m (Done # rest) w = (Cancelled, [TickerStop], w)"
| "maintainLoop os sys m (Tick # rest) w =
     (case maintainDiskUsage os sys m w of
        (Panics p, t, w1) \<Rightarrow> (Panicked p, t, w1)
      | (Returns err, t, w1) \<Rightarrow>
          (case maintainLoop os sys m rest w1 of
             (r, t', w2) \<Rightarrow> (r, t @ logError err @ t', w2)))"

text \<open>
  \<open>Maintain\<close> changes the fields of \<open>m\<close> in place, so the maintainer it leaves behind is part
  of the result.
\<close>

definition Maintain ::
  "string \<Rightarrow> 'w statfs \<Rightarrow> 'w Maintainer \<Rightarrow> ready list \<Rightarrow> 'w
     \<Rightarrow> run \<times> 'w Maintainer \<times> event list \<times> 'w" where
  "Maintain os sys m sched w =
     (if Clean m = None then (Panicked ''nil Clean function'', m, [], w)
      else
        (let m1 = (if Volume m = '''' then m\<lparr>Volume := defaultVolume\<rparr> else m);
             m2 = (if f64_le (Threshold m1) (Finite 0 0) \<or> f64_ge (Threshold m1) (Finite 1 0)
                   then m1\<lparr>Threshold := defaultThreshold\<rparr> else m1);
             m3 = (if CheckInterval m2 \<le> 0
                   then m2\<lparr>CheckInterval := defaultCheckInterval\<rparr> else m2);
             m4 = (if Logger m3 = None then m3\<lparr>Logger := Some NewNop\<rparr> else m3);
             t0 = [LogStart (Volume m4) (Threshold m4) (CheckInterval m4)]
         in case maintainDiskUsage os sys m4 w of
              (Panics p, t, w1) \<Rightarrow> (Panicked p, m4, t0 @ t, w1)
            | (Returns err, t, w1) \<Rightarrow>
                (case maintainLoop os sys m4 sched w1 of
                   (r, t', w2) \<Rightarrow>
                     (r, m4,
                      t0 @ t @ logError err @ [TickerStart (CheckInterval m4)] @ t',
                      w2))))"

text \<open>
  The maintainer that \<open>Maintain\<close> works with after its four checks: a field that fails its
  check holds the default, every other field is as it was.
\<close>

definition withDefaults :: "'w Maintainer \<Rightarrow> 'w Maintainer" where
  "withDefaults m =
     m\<lparr>Volume := (if Volume m = [] then defaultVolume else Volume m),
       CheckInterval := (if CheckInterval m \<le> 0 then defaultCheckInterval else CheckInterval m),
       Threshold := (if f64_le (Threshold m) (Finite 0 0) \<or> f64_ge (Threshold m) (Finite 1 0)
                     then defaultThreshold else Threshold m),
       Logger := (if Logger m = None then Some NewNop else Logger m)\<rparr>"

section \<open>Reading a trace\<close>

fun is_probe :: "event \<Rightarrow> bool" where
  "is_probe (Probe p) = True"
| "is_probe _ = False"

fun is_cleaned :: "event \<Rightarrow> bool" where
  "is_cleaned (LogCleaned a b) = True"
| "is_cleaned _ = False"

section \<open>The usage ratio as the specification words it\<close>

text \<open>
  Used bytes and total bytes are each divided by 1,048,576 and truncated, and only then is
  the quotient of the two whole numbers taken, as a float64: the float nearest to the exact
  quotient, and what IEEE division gives for a zero divisor.
\<close>

definition spec_usedRatio :: "u64 \<Rightarrow> u64 \<Rightarrow> float64" where
  "spec_usedRatio usedBytes totalBytes =
     (let usedMB = unat usedBytes div 1048576;
          totalMB = unat totalBytes div 1048576
      in if totalMB = 0 then (if usedMB = 0 then NaN else PosInf)
         else if usedMB = 0 then Finite 0 0
         else round_quot False usedMB totalMB 0)"

section \<open>Concrete surroundings\<close>

text \<open>A volume of 4096-byte blocks, a system call that always reports it, and one that
  reports a list of volumes call after call and fails after the last.\<close>

definition volume :: "u64 \<Rightarrow> u64 \<Rightarrow> u64 \<Rightarrow> Statfs_t" where
  "volume blocks bfree bavail =
     \<lparr>Blocks = blocks, Bfree = bfree, Bavail = bavail, Bsize = 4096\<rparr>"

definition statfs_fixed :: "Statfs_t \<Rightarrow> 'w statfs" where
  "statfs_fixed fs = (\<lambda>path w. (Inr fs, w))"

definition statfs_seq :: "Statfs_t list \<Rightarrow> nat statfs" where
  "statfs_seq fss =
     (\<lambda>path n. (if n < length fss then Inr (fss ! n) else Inl ''input/output error'', Suc n))"

definition clean_ok :: "'w \<Rightarrow> error option \<times> 'w" where
  "clean_ok w = (None, w)"

definition clean_fails :: "'w \<Rightarrow> error option \<times> 'w" where
  "clean_fails w = (Some ''permission denied'', w)"

definition maintainer :: "float64 \<Rightarrow> ('w \<Rightarrow> error option \<times> 'w) \<Rightarrow> 'w Maintainer" where
  "maintainer thr c =
     \<lparr>Volume = ''/'', CheckInterval = 1000000000, Threshold = thr, Clean = Some c,
      Logger = Some Custom\<rparr>"

text \<open>The zero value \<open>Maintainer{}\<close>.\<close>

definition zero_Maintainer :: "'w Maintainer" where
  "zero_Maintainer =
     \<lparr>Volume = '''', CheckInterval = 0, Threshold = Finite 0 0, Clean = None, Logger = None\<rparr>"

section \<open>Facts about the arithmetic\<close>

lemmas f64_eval = f64_of_u64_def round_quot_def ilog2_quot_def rne_div_def log2n.simps
  dyadic_less_def dyadic_le_def f64_ge_def Let_def

lemma defaultThreshold_eq: "defaultThreshold = Finite 8106479329266893 (- 53)"
  by (simp add: defaultThreshold_def f64_eval)

lemma f64_of_u64_ties_to_even:
  "f64_of_u64 (2 ^ 53 + 1) = Finite (2 ^ 52) 1" and "f64_of_u64 (2 ^ 53 + 3) = Finite (2 ^ 52 + 2) 1"
  by (simp_all add: f64_eval)

lemma log2n_bounds:
  assumes "0 < n"
  shows "2 ^ log2n n \<le> n \<and> n < 2 ^ Suc (log2n n)"
  using assms
proof (induction n rule: log2n.induct)
  case (1 n)
  show ?case
  proof (cases "n < 2")
    case True
    with "1.prems" show ?thesis
      by (simp add: log2n.simps)
  next
    case False
    then have "0 < n div 2"
      by simp
    with False "1.IH"
    have ih: "2 ^ log2n (n div 2) \<le> n div 2" "n div 2 < 2 ^ Suc (log2n (n div 2))"
      by simp_all
    have l: "log2n n = Suc (log2n (n div 2))"
      using False by (simp add: log2n.simps)
    from ih show ?thesis
      unfolding l by (simp; linarith)
  qed
qed

text \<open>\<open>rne_div a b\<close> is within one half of \<open>a / b\<close>.\<close>

lemma rne_div_nearest:
  assumes "0 < b"
  shows "2 * (rne_div a b * b) \<le> 2 * a + b \<and> 2 * a \<le> 2 * (rne_div a b * b) + b"
proof -
  define q r where "q = a div b" and "r = a mod b"
  have a: "a = q * b + r"
    by (simp add: q_def r_def)
  have r: "r < b"
    using assms by (simp add: r_def)
  have "rne_div a b = q \<or> rne_div a b = q + 1"
    by (auto simp: rne_div_def Let_def q_def)
  moreover have "rne_div a b = q \<Longrightarrow> 2 * r \<le> b"
    by (auto simp: rne_div_def Let_def q_def r_def split: if_splits)
  moreover have "rne_div a b = q + 1 \<Longrightarrow> b \<le> 2 * r"
    by (auto simp: rne_div_def Let_def q_def r_def split: if_splits)
  ultimately show ?thesis
    using r by (auto simp: a algebra_simps)
qed

lemma dyadic_le_not_less: "dyadic_le m2 e2 m1 e1 \<Longrightarrow> \<not> dyadic_less m1 e1 m2 e2"
  by (simp add: dyadic_le_def dyadic_less_def min.commute)

lemma f64_ge_not_lt: "f64_ge a b \<Longrightarrow> \<not> f64_lt a b"
  by (cases a; cases b) (simp_all add: f64_ge_def dyadic_le_not_less)

lemma unat_MB: "unat MB = 1048576"
  by (simp add: MB_def)

lemma unat_div_MB: "unat (x div MB) = unat x div 1048576"
  by (simp add: unat_div unat_MB)

lemma unat_div_MB_less: "unat ((x :: u64) div MB) < 2 ^ 44"
proof -
  have "unat x < 2 ^ 64"
    using unsigned_less [of x] by simp
  then show ?thesis
    by (simp add: unat_div_MB)
qed

text \<open>A count of megabytes is below \<open>2 ^ 53\<close>, so its conversion to float64 is exact.\<close>

lemma f64_of_u64_div_MB: "f64_of_u64 (x div MB) = Finite (int (unat x div 1048576)) 0"
proof -
  have "unat (x div MB) < 2 ^ 53"
    using unat_div_MB_less [of x] by simp
  then show ?thesis
    by (simp add: f64_of_u64_def unat_div_MB)
qed

lemma code_ratio_eq_spec:
  "f64_div (f64_of_u64 (u div MB)) (f64_of_u64 (t div MB)) = spec_usedRatio u t"
  by (simp add: f64_of_u64_div_MB spec_usedRatio_def Let_def)

lemma wrap_sub_nat:
  fixes a b N :: nat
  assumes "a < N" and "b < N"
  shows "(if b \<le> a then a - b else a + N - b) = (N + a - b) mod N"
proof (cases "b \<le> a")
  case True
  then have "N + a - b = (a - b) + N"
    by simp
  then have "(N + a - b) mod N = (a - b) mod N"
    by (simp only: mod_add_self2)
  also have "\<dots> = a - b"
    using assms(1) by simp
  finally show ?thesis
    using True by simp
next
  case False
  then have "N + a - b < N"
    using assms(2) by linarith
  then have "(N + a - b) mod N = N + a - b"
    by simp
  then show ?thesis
    using False by (simp add: add.commute)
qed

section \<open>The prober\<close>

lemma diskUsage_used:
  assumes "diskUsage os sys path w = (Inr d, w')"
  shows "used d = (if os = ''darwin'' then all d - available d else all d - free d)"
  using assms
  by (auto simp: diskUsage_def Let_def split: prod.splits sum.splits if_splits)

lemma probe_volume:
  "diskUsage os (statfs_fixed (volume b f a)) p w =
     (Inr \<lparr>all = b * 4096, available = a * 4096, free = f * 4096,
           used = (if os = ''darwin'' then b * 4096 - a * 4096 else b * 4096 - f * 4096)\<rparr>, w)"
  by (simp add: diskUsage_def statfs_fixed_def volume_def Let_def)

lemma probe_seq:
  "diskUsage os (statfs_seq fss) p n =
     (if n < length fss
      then Inr \<lparr>all = Blocks (fss ! n) * word_of_int (Bsize (fss ! n)),
                available = Bavail (fss ! n) * word_of_int (Bsize (fss ! n)),
                free = Bfree (fss ! n) * word_of_int (Bsize (fss ! n)),
                used = (if os = ''darwin''
                        then Blocks (fss ! n) * word_of_int (Bsize (fss ! n))
                             - Bavail (fss ! n) * word_of_int (Bsize (fss ! n))
                        else Blocks (fss ! n) * word_of_int (Bsize (fss ! n))
                             - Bfree (fss ! n) * word_of_int (Bsize (fss ! n)))\<rparr>
      else Inl ''input/output error'', Suc n)"
  by (simp add: diskUsage_def statfs_seq_def Let_def)

text \<open>
  C2. When the system call succeeds, the probe succeeds with total = blocks * block size,
  available = available blocks * block size, free = free blocks * block size (all in
  \<open>uint64\<close> arithmetic), and used = total - available on darwin, total - free elsewhere.
\<close>

theorem diskUsage_fields:
  assumes "sys path w = (Inr fs, w')"
  shows "\<exists>d. diskUsage os sys path w = (Inr d, w')
           \<and> all d = Blocks fs * word_of_int (Bsize fs)
           \<and> available d = Bavail fs * word_of_int (Bsize fs)
           \<and> free d = Bfree fs * word_of_int (Bsize fs)
           \<and> used d = (if os = ''darwin'' then all d - available d else all d - free d)"
  using assms by (simp add: diskUsage_def Let_def)

theorem diskUsage_fields_witness:
  "statfs_fixed (volume 25600 5120 1280) ''/'' () = (Inr (volume 25600 5120 1280), ())
   \<and> diskUsage ''darwin'' (statfs_fixed (volume 25600 5120 1280)) ''/'' ()
       = (Inr \<lparr>all = 104857600, available = 5242880, free = 20971520, used = 99614720\<rparr>, ())
   \<and> diskUsage ''linux'' (statfs_fixed (volume 25600 5120 1280)) ''/'' ()
       = (Inr \<lparr>all = 104857600, available = 5242880, free = 20971520, used = 83886080\<rparr>, ())"
proof -
  have h: "statfs_fixed (volume 25600 5120 1280) ''/'' () = (Inr (volume 25600 5120 1280), ())"
    by (simp add: statfs_fixed_def)
  have "diskUsage ''darwin'' (statfs_fixed (volume 25600 5120 1280)) ''/'' ()
       = (Inr \<lparr>all = 104857600, available = 5242880, free = 20971520, used = 99614720\<rparr>, ())"
    using diskUsage_fields [of "statfs_fixed (volume 25600 5120 1280)" "''/''" "()"
        "volume 25600 5120 1280" "()" "''darwin''"] h
    by (auto simp: volume_def)
  moreover have "diskUsage ''linux'' (statfs_fixed (volume 25600 5120 1280)) ''/'' ()
       = (Inr \<lparr>all = 104857600, available = 5242880, free = 20971520, used = 83886080\<rparr>, ())"
    using diskUsage_fields [of "statfs_fixed (volume 25600 5120 1280)" "''/''" "()"
        "volume 25600 5120 1280" "()" "''linux''"] h
    by (auto simp: volume_def)
  ultimately show ?thesis
    using h by simp
qed

text \<open>
  C4, as the code has it. The probe does not compare the counts it is given: used is at most
  total exactly when the byte count it subtracts (available on darwin, free elsewhere) is at
  most total. When the system reports more free than total blocks, the subtraction wraps.
\<close>

theorem used_le_total_iff:
  assumes "diskUsage os sys path w = (Inr d, w')"
  shows "used d \<le> all d \<longleftrightarrow> (if os = ''darwin'' then available d else free d) \<le> all d"
  by (simp add: diskUsage_used [OF assms] word_sub_le_iff)

theorem used_le_total_iff_witness:
  "diskUsage ''linux'' (statfs_fixed (volume 25600 5120 1280)) ''/'' ()
     = (Inr \<lparr>all = 104857600, available = 5242880, free = 20971520, used = 83886080\<rparr>, ())
   \<and> (83886080 :: u64) \<le> 104857600 \<and> (20971520 :: u64) \<le> 104857600"
proof -
  have h: "diskUsage ''linux'' (statfs_fixed (volume 25600 5120 1280)) ''/'' ()
     = (Inr \<lparr>all = 104857600, available = 5242880, free = 20971520, used = 83886080\<rparr>, ())"
    by (simp add: probe_volume)
  from h used_le_total_iff [OF h] show ?thesis
    by simp
qed

text \<open>
  C4, as stated, fails: a volume reported with 1 block of which 2 are free gives
  total = 4096 and used = \<open>2 ^ 64 - 4096\<close>.
\<close>

theorem used_le_total_counterexample:
  "diskUsage ''linux'' (statfs_fixed (volume 1 2 0)) ''/'' ()
     = (Inr \<lparr>all = 4096, available = 0, free = 8192, used = 18446744073709547520\<rparr>, ())
   \<and> \<not> (18446744073709547520 :: u64) \<le> 4096"
  by (simp add: probe_volume)

section \<open>The paths of one cycle\<close>

lemma cycle_probe_fails:
  assumes "diskUsage os sys (Volume m) w = (Inl e, w1)"
  shows "maintainDiskUsage os sys m w = (Returns (Some e), [Probe (Volume m)], w1)"
  using assms by (simp add: maintainDiskUsage_def)

lemma cycle_below:
  assumes "diskUsage os sys (Volume m) w = (Inr du, w1)"
    and "f64_lt (f64_div (f64_of_u64 (used du div MB)) (f64_of_u64 (all du div MB))) (Threshold m)"
  shows "maintainDiskUsage os sys m w = (Returns None, [Probe (Volume m)], w1)"
  using assms by (simp add: maintainDiskUsage_def Let_def)

lemma cycle_clean_fails:
  assumes "diskUsage os sys (Volume m) w = (Inr du, w1)"
    and "\<not> f64_lt (f64_div (f64_of_u64 (used du div MB)) (f64_of_u64 (all du div MB))) (Threshold m)"
    and "Logger m = Some lg" and "Clean m = Some c" and "c w1 = (Some e, w2)"
  shows "maintainDiskUsage os sys m w =
           (Returns (Some (''clean: '' @ e)),
            [Probe (Volume m),
             LogWarn (all du div MB) (used du div MB)
               (f64_div (f64_of_u64 (used du div MB)) (f64_of_u64 (all du div MB))) (Threshold m),
             CleanCall], w2)"
  using assms by (simp add: maintainDiskUsage_def Let_def)

lemma cycle_reprobe_fails:
  assumes "diskUsage os sys (Volume m) w = (Inr du, w1)"
    and "\<not> f64_lt (f64_div (f64_of_u64 (used du div MB)) (f64_of_u64 (all du div MB))) (Threshold m)"
    and "Logger m = Some lg" and "Clean m = Some c" and "c w1 = (None, w2)"
    and "diskUsage os sys (Volume m) w2 = (Inl e, w3)"
  shows "maintainDiskUsage os sys m w =
           (Returns (Some e),
            [Probe (Volume m),
             LogWarn (all du div MB) (used du div MB)
               (f64_div (f64_of_u64 (used du div MB)) (f64_of_u64 (all du div MB))) (Threshold m),
             CleanCall, Probe (Volume m)], w3)"
  using assms by (simp add: maintainDiskUsage_def Let_def)

lemma cycle_cleaned:
  assumes "diskUsage os sys (Volume m) w = (Inr du, w1)"
    and "\<not> f64_lt (f64_div (f64_of_u64 (used du div MB)) (f64_of_u64 (all du div MB))) (Threshold m)"
    and "Logger m = Some lg" and "Clean m = Some c" and "c w1 = (None, w2)"
    and "diskUsage os sys (Volume m) w2 = (Inr du2, w3)"
  shows "maintainDiskUsage os sys m w =
           (Returns None,
            [Probe (Volume m),
             LogWarn (all du div MB) (used du div MB)
               (f64_div (f64_of_u64 (used du div MB)) (f64_of_u64 (all du div MB))) (Threshold m),
             CleanCall, Probe (Volume m),
             LogCleaned (used du2 div MB) (used du div MB - used du2 div MB)], w3)"
  using assms by (simp add: maintainDiskUsage_def Let_def)

text \<open>Whatever the callback and the second probe do, a cycle that reaches the callback
  calls it once.\<close>

lemma cycle_clean_count:
  assumes p: "diskUsage os sys (Volume m) w = (Inr du, w1)"
    and nb: "\<not> f64_lt (f64_div (f64_of_u64 (used du div MB)) (f64_of_u64 (all du div MB))) (Threshold m)"
    and lg: "Logger m = Some lg" and c: "Clean m = Some c"
  shows "count_list (fst (snd (maintainDiskUsage os sys m w))) CleanCall = 1"
proof (cases "c w1")
  case (Pair res w2)
  show ?thesis
  proof (cases res)
    case (Some e)
    with Pair cycle_clean_fails [OF p nb lg c] show ?thesis
      by simp
  next
    case None
    with Pair have cw: "c w1 = (None, w2)"
      by simp
    show ?thesis
    proof (cases "diskUsage os sys (Volume m) w2")
      case (Pair res2 w3)
      then show ?thesis
        using cycle_reprobe_fails [OF p nb lg c cw] cycle_cleaned [OF p nb lg c cw]
        by (cases res2) simp_all
    qed
  qed
qed

section \<open>Two runs of the examples of the specification\<close>

text \<open>A volume of 100 MB with 5 MB free is used at 95/100, one with 20 MB free at 80/100.\<close>

lemma ratio_95:
  "f64_div (f64_of_u64 (99614720 div MB)) (f64_of_u64 (104857600 div MB))
     = Finite 8556839292003942 (- 53)"
  by (simp add: MB_def f64_eval)

lemma ratio_80:
  "f64_div (f64_of_u64 (83886080 div MB)) (f64_of_u64 (104857600 div MB))
     = Finite 7205759403792794 (- 53)"
  by (simp add: MB_def f64_eval)

lemma ratio_95_not_below: "\<not> f64_lt (Finite 8556839292003942 (- 53)) defaultThreshold"
  by (simp add: defaultThreshold_eq dyadic_less_def)

lemma ratio_95_ge: "f64_ge (Finite 8556839292003942 (- 53)) defaultThreshold"
  by (simp add: defaultThreshold_eq f64_ge_def dyadic_le_def)

lemma ratio_80_below: "f64_lt (Finite 7205759403792794 (- 53)) defaultThreshold"
  by (simp add: defaultThreshold_eq dyadic_less_def)

section \<open>The cycle\<close>

text \<open>
  C1. In a cycle whose first probe succeeds, the cleanup callback is called exactly once when
  the computed ratio is greater than or equal to the threshold, and not at all when it is
  less. (The maintainer is as \<open>Maintain\<close> leaves it: callback and logger are set.)
\<close>

theorem cleanup_once_iff_not_below:
  assumes "diskUsage os sys (Volume m) w = (Inr du, w1)"
    and "Clean m = Some c" and "Logger m = Some lg"
  shows "(f64_ge (f64_div (f64_of_u64 (used du div MB)) (f64_of_u64 (all du div MB))) (Threshold m)
            \<longrightarrow> count_list (fst (snd (maintainDiskUsage os sys m w))) CleanCall = 1)
       \<and> (f64_lt (f64_div (f64_of_u64 (used du div MB)) (f64_of_u64 (all du div MB))) (Threshold m)
            \<longrightarrow> count_list (fst (snd (maintainDiskUsage os sys m w))) CleanCall = 0)"
  using assms
  by (auto dest: f64_ge_not_lt simp: cycle_clean_count cycle_below)

theorem cleanup_once_iff_not_below_witness:
  "f64_ge (Finite 8556839292003942 (- 53)) defaultThreshold
   \<and> count_list (fst (snd (maintainDiskUsage ''linux'' (statfs_fixed (volume 25600 1280 1280))
         (maintainer defaultThreshold clean_ok) ()))) CleanCall = 1
   \<and> f64_lt (Finite 7205759403792794 (- 53)) defaultThreshold
   \<and> count_list (fst (snd (maintainDiskUsage ''linux'' (statfs_fixed (volume 25600 5120 5120))
         (maintainer defaultThreshold clean_ok) ()))) CleanCall = 0"
proof -
  have a: "count_list (fst (snd (maintainDiskUsage ''linux'' (statfs_fixed (volume 25600 1280 1280))
         (maintainer defaultThreshold clean_ok) ()))) CleanCall = 1"
    using cleanup_once_iff_not_below [of "''linux''" "statfs_fixed (volume 25600 1280 1280)"
        "maintainer defaultThreshold clean_ok" "()" _ "()" clean_ok Custom] ratio_95_ge
    by (simp add: maintainer_def probe_volume ratio_95)
  have b: "count_list (fst (snd (maintainDiskUsage ''linux'' (statfs_fixed (volume 25600 5120 5120))
         (maintainer defaultThreshold clean_ok) ()))) CleanCall = 0"
    using cleanup_once_iff_not_below [of "''linux''" "statfs_fixed (volume 25600 5120 5120)"
        "maintainer defaultThreshold clean_ok" "()" _ "()" clean_ok Custom] ratio_80_below
    by (simp add: maintainer_def probe_volume ratio_80)
  from ratio_95_ge a ratio_80_below b show ?thesis
    by simp
qed

text \<open>
  C3. The ratio that a cycle compares with the threshold is the quotient of used and total,
  each first divided by 1,048,576 and truncated: the cycle ends without any action exactly
  when that quotient is less than the threshold, and otherwise it is the ratio the warning
  reports.
\<close>

theorem ratio_of_truncated_megabytes:
  assumes "diskUsage os sys (Volume m) w = (Inr du, w1)"
  shows "(maintainDiskUsage os sys m w = (Returns None, [Probe (Volume m)], w1)
            \<longleftrightarrow> f64_lt (spec_usedRatio (used du) (all du)) (Threshold m))
       \<and> (\<not> f64_lt (spec_usedRatio (used du) (all du)) (Threshold m) \<and> Logger m \<noteq> None
            \<longrightarrow> (fst (snd (maintainDiskUsage os sys m w))) ! 1
                  = LogWarn (all du div MB) (used du div MB)
                      (spec_usedRatio (used du) (all du)) (Threshold m))"
  using assms
  by (auto simp: maintainDiskUsage_def Let_def code_ratio_eq_spec
      split: option.splits prod.splits sum.splits)

text \<open>
  The witness is a volume of 2 MB with one block free: 2,093,056 of 2,097,152 bytes are used
  (more than 99.8%), the truncated counts are 1 and 2, and the ratio 1/2 is below 0.9.
\<close>

theorem ratio_of_truncated_megabytes_witness:
  "diskUsage ''linux'' (statfs_fixed (volume 512 1 1)) ''/'' ()
     = (Inr \<lparr>all = 2097152, available = 4096, free = 4096, used = 2093056\<rparr>, ())
   \<and> spec_usedRatio 2093056 2097152 = Finite 4503599627370496 (- 53)
   \<and> maintainDiskUsage ''linux'' (statfs_fixed (volume 512 1 1))
        (maintainer defaultThreshold clean_ok) () = (Returns None, [Probe ''/''], ())
   \<and> \<not> f64_lt (spec_usedRatio 99614720 104857600) defaultThreshold
   \<and> fst (snd (maintainDiskUsage ''linux'' (statfs_fixed (volume 25600 1280 1280))
        (maintainer defaultThreshold clean_ok) ())) ! 1
       = LogWarn 100 95 (Finite 8556839292003942 (- 53)) defaultThreshold"
proof -
  have p: "diskUsage ''linux'' (statfs_fixed (volume 512 1 1)) ''/'' ()
     = (Inr \<lparr>all = 2097152, available = 4096, free = 4096, used = 2093056\<rparr>, ())"
    by (simp add: probe_volume)
  have r: "spec_usedRatio 2093056 2097152 = Finite 4503599627370496 (- 53)"
    by (simp add: spec_usedRatio_def f64_eval)
  have lt: "f64_lt (Finite 4503599627370496 (- 53)) defaultThreshold"
    by (simp add: defaultThreshold_eq dyadic_less_def)
  have a: "maintainDiskUsage ''linux'' (statfs_fixed (volume 512 1 1))
        (maintainer defaultThreshold clean_ok) () = (Returns None, [Probe ''/''], ())"
    using ratio_of_truncated_megabytes [of "''linux''" "statfs_fixed (volume 512 1 1)"
        "maintainer defaultThreshold clean_ok" "()" _ "()"] p r lt
    by (simp add: maintainer_def)
  have q: "diskUsage ''linux'' (statfs_fixed (volume 25600 1280 1280)) ''/'' ()
     = (Inr \<lparr>all = 104857600, available = 5242880, free = 5242880, used = 99614720\<rparr>, ())"
    by (simp add: probe_volume)
  have s: "spec_usedRatio 99614720 104857600 = Finite 8556839292003942 (- 53)"
    using ratio_95 by (simp add: code_ratio_eq_spec)
  have b: "fst (snd (maintainDiskUsage ''linux'' (statfs_fixed (volume 25600 1280 1280))
        (maintainer defaultThreshold clean_ok) ())) ! 1
       = LogWarn 100 95 (Finite 8556839292003942 (- 53)) defaultThreshold"
    using ratio_of_truncated_megabytes [of "''linux''" "statfs_fixed (volume 25600 1280 1280)"
        "maintainer defaultThreshold clean_ok" "()" _ "()"] q s ratio_95_not_below
    by (simp add: maintainer_def MB_def)
  from p r a s ratio_95_not_below b show ?thesis
    by simp
qed

text \<open>
  C5. When the cleanup callback returns an error, the cycle returns the error that
  \<open>fmt.Errorf\<close> makes from it (the callback's message after \<open>clean: \<close>), and the volume has
  been probed once only.
\<close>

theorem clean_error_wrapped_no_reprobe:
  assumes "diskUsage os sys (Volume m) w = (Inr du, w1)"
    and "\<not> f64_lt (f64_div (f64_of_u64 (used du div MB)) (f64_of_u64 (all du div MB))) (Threshold m)"
    and "Logger m = Some lg" and "Clean m = Some c" and "c w1 = (Some e, w2)"
  shows "fst (maintainDiskUsage os sys m w) = Returns (Some (''clean: '' @ e))
       \<and> length (filter is_probe (fst (snd (maintainDiskUsage os sys m w)))) = 1
       \<and> count_list (fst (snd (maintainDiskUsage os sys m w))) CleanCall = 1"
  by (simp add: cycle_clean_fails [OF assms])

theorem clean_error_wrapped_no_reprobe_witness:
  "diskUsage ''linux'' (statfs_fixed (volume 25600 1280 1280)) ''/'' ()
     = (Inr \<lparr>all = 104857600, available = 5242880, free = 5242880, used = 99614720\<rparr>, ())
   \<and> \<not> f64_lt (f64_div (f64_of_u64 (99614720 div MB)) (f64_of_u64 (104857600 div MB)))
          defaultThreshold
   \<and> clean_fails () = (Some ''permission denied'', ())
   \<and> maintainDiskUsage ''linux'' (statfs_fixed (volume 25600 1280 1280))
        (maintainer defaultThreshold clean_fails) ()
       = (Returns (Some ''clean: permission denied''),
          [Probe ''/'', LogWarn 100 95 (Finite 8556839292003942 (- 53)) defaultThreshold,
           CleanCall], ())"
proof -
  have p: "diskUsage ''linux'' (statfs_fixed (volume 25600 1280 1280))
             (Volume (maintainer defaultThreshold clean_fails)) ()
     = (Inr \<lparr>all = 104857600, available = 5242880, free = 5242880, used = 99614720\<rparr>, ())"
    by (simp add: probe_volume)
  have nb: "\<not> f64_lt (f64_div (f64_of_u64 (used \<lparr>all = 104857600, available = 5242880,
                 free = 5242880, used = 99614720\<rparr> div MB))
               (f64_of_u64 (all \<lparr>all = 104857600, available = 5242880,
                 free = 5242880, used = (99614720 :: u64)\<rparr> div MB)))
             (Threshold (maintainer defaultThreshold clean_fails))"
    by (simp add: ratio_95 ratio_95_not_below maintainer_def)
  have lg: "Logger (maintainer defaultThreshold clean_fails) = Some Custom"
    and c: "Clean (maintainer defaultThreshold (clean_fails :: unit \<Rightarrow> error option \<times> unit))
              = Some clean_fails"
    by (simp_all add: maintainer_def)
  have cw: "clean_fails () = (Some ''permission denied'', ())"
    by (simp add: clean_fails_def)
  have t: "maintainDiskUsage ''linux'' (statfs_fixed (volume 25600 1280 1280))
        (maintainer defaultThreshold clean_fails) ()
       = (Returns (Some ''clean: permission denied''),
          [Probe ''/'', LogWarn 100 95 (Finite 8556839292003942 (- 53)) defaultThreshold,
           CleanCall], ())"
    by (simp add: cycle_clean_fails [OF p nb lg c cw] ratio_95)
      (simp add: maintainer_def MB_def)
  have "fst (maintainDiskUsage ''linux'' (statfs_fixed (volume 25600 1280 1280))
        (maintainer defaultThreshold clean_fails) ()) = Returns (Some ''clean: permission denied'')"
    using clean_error_wrapped_no_reprobe [OF p nb lg c cw] by simp
  with p nb cw t show ?thesis
    by (simp add: maintainer_def ratio_95)
qed

text \<open>
  C6. When the cleanup succeeds and the probe after it fails, the cycle returns that probe's
  error, and the report of freed megabytes is not logged.
\<close>

theorem reprobe_error_no_freed_report:
  assumes "diskUsage os sys (Volume m) w = (Inr du, w1)"
    and "\<not> f64_lt (f64_div (f64_of_u64 (used du div MB)) (f64_of_u64 (all du div MB))) (Threshold m)"
    and "Logger m = Some lg" and "Clean m = Some c" and "c w1 = (None, w2)"
    and "diskUsage os sys (Volume m) w2 = (Inl e, w3)"
  shows "fst (maintainDiskUsage os sys m w) = Returns (Some e)
       \<and> filter is_cleaned (fst (snd (maintainDiskUsage os sys m w))) = []
       \<and> length (filter is_probe (fst (snd (maintainDiskUsage os sys m w)))) = 2"
  by (simp add: cycle_reprobe_fails [OF assms])

theorem reprobe_error_no_freed_report_witness:
  "diskUsage ''linux'' (statfs_seq [volume 25600 1280 1280]) ''/'' 0
     = (Inr \<lparr>all = 104857600, available = 5242880, free = 5242880, used = 99614720\<rparr>, 1)
   \<and> clean_ok (1 :: nat) = (None, 1)
   \<and> diskUsage ''linux'' (statfs_seq [volume 25600 1280 1280]) ''/'' 1
       = (Inl ''input/output error'', 2)
   \<and> fst (maintainDiskUsage ''linux'' (statfs_seq [volume 25600 1280 1280])
        (maintainer defaultThreshold clean_ok) 0) = Returns (Some ''input/output error'')
   \<and> filter is_cleaned (fst (snd (maintainDiskUsage ''linux'' (statfs_seq [volume 25600 1280 1280])
        (maintainer defaultThreshold clean_ok) 0))) = []"
proof -
  have p: "diskUsage ''linux'' (statfs_seq [volume 25600 1280 1280])
             (Volume (maintainer defaultThreshold clean_ok)) 0
     = (Inr \<lparr>all = 104857600, available = 5242880, free = 5242880, used = 99614720\<rparr>, 1)"
    by (simp add: probe_seq volume_def)
  have nb: "\<not> f64_lt (f64_div (f64_of_u64 (used \<lparr>all = 104857600, available = 5242880,
                 free = 5242880, used = 99614720\<rparr> div MB))
               (f64_of_u64 (all \<lparr>all = 104857600, available = 5242880,
                 free = 5242880, used = (99614720 :: u64)\<rparr> div MB)))
             (Threshold (maintainer defaultThreshold clean_ok))"
    by (simp add: ratio_95 ratio_95_not_below maintainer_def)
  have lg: "Logger (maintainer defaultThreshold clean_ok) = Some Custom"
    and c: "Clean (maintainer defaultThreshold (clean_ok :: nat \<Rightarrow> error option \<times> nat))
              = Some clean_ok"
    by (simp_all add: maintainer_def)
  have cw: "clean_ok (1 :: nat) = (None, 1)"
    by (simp add: clean_ok_def)
  have q: "diskUsage ''linux'' (statfs_seq [volume 25600 1280 1280])
             (Volume (maintainer defaultThreshold clean_ok)) 1
       = (Inl ''input/output error'', 2)"
    by (simp add: probe_seq)
  from p cw q reprobe_error_no_freed_report [OF p nb lg c cw q] show ?thesis
    by (simp add: maintainer_def)
qed

text \<open>
  C9. Nothing guards the division. When the probed total is below 1,048,576 bytes the divisor
  is zero, the ratio (an infinity or a NaN) is less than no threshold, and the callback is
  called whatever the usage is.
\<close>

theorem tiny_volume_always_cleans:
  assumes "diskUsage os sys (Volume m) w = (Inr du, w1)"
    and "unat (all du) < 1048576"
    and "Clean m = Some c" and "Logger m = Some lg"
  shows "all du div MB = 0
       \<and> (\<forall>thr. \<not> f64_lt (f64_div (f64_of_u64 (used du div MB)) (f64_of_u64 (all du div MB))) thr)
       \<and> count_list (fst (snd (maintainDiskUsage os sys m w))) CleanCall = 1"
proof -
  have z: "all du div MB = 0"
    using assms(2) by (simp add: unat_div_MB flip: unat_eq_0)
  have r: "f64_div (f64_of_u64 (used du div MB)) (f64_of_u64 (all du div MB)) \<in> {NaN, PosInf}"
    using assms(2) by (simp add: f64_of_u64_div_MB)
  have nl: "\<not> f64_lt (f64_div (f64_of_u64 (used du div MB)) (f64_of_u64 (all du div MB))) thr"
    for thr
    using r by (cases thr) auto
  from z nl cycle_clean_count [OF assms(1) nl assms(4) assms(3)] show ?thesis
    by blast
qed

text \<open>The witness is an empty volume of 255 blocks (1,044,480 bytes): nothing is used, and
  the callback runs.\<close>

theorem tiny_volume_always_cleans_witness:
  "diskUsage ''linux'' (statfs_fixed (volume 255 255 255)) ''/'' ()
     = (Inr \<lparr>all = 1044480, available = 1044480, free = 1044480, used = 0\<rparr>, ())
   \<and> unat (1044480 :: u64) < 1048576
   \<and> f64_div (f64_of_u64 (0 div MB)) (f64_of_u64 (1044480 div MB)) = NaN
   \<and> count_list (fst (snd (maintainDiskUsage ''linux'' (statfs_fixed (volume 255 255 255))
        (maintainer defaultThreshold clean_ok) ()))) CleanCall = 1"
proof -
  have p: "diskUsage ''linux'' (statfs_fixed (volume 255 255 255))
             (Volume (maintainer defaultThreshold clean_ok)) ()
     = (Inr \<lparr>all = 1044480, available = 1044480, free = 1044480, used = 0\<rparr>, ())"
    by (simp add: probe_volume)
  have s: "unat (all \<lparr>all = 1044480, available = 1044480, free = 1044480, used = (0 :: u64)\<rparr>)
             < 1048576"
    by simp
  have lg: "Logger (maintainer defaultThreshold clean_ok) = Some Custom"
    and c: "Clean (maintainer defaultThreshold (clean_ok :: unit \<Rightarrow> error option \<times> unit))
              = Some clean_ok"
    by (simp_all add: maintainer_def)
  have n: "f64_div (f64_of_u64 (0 div MB)) (f64_of_u64 (1044480 div MB)) = NaN"
    by (simp add: MB_def f64_of_u64_def)
  from p s n tiny_volume_always_cleans [OF p s c lg] show ?thesis
    by (simp add: maintainer_def)
qed

text \<open>
  C10. After a successful cleanup and second probe, the freed megabytes logged are the
  difference of the two used-megabyte counts in \<open>uint64\<close>, that is modulo \<open>2 ^ 64\<close>; when
  usage has grown, the value is \<open>2 ^ 64\<close> less the growth, above \<open>2 ^ 64 - 2 ^ 44\<close>.
\<close>

theorem freed_mb_wraps:
  assumes "diskUsage os sys (Volume m) w = (Inr du, w1)"
    and "\<not> f64_lt (f64_div (f64_of_u64 (used du div MB)) (f64_of_u64 (all du div MB))) (Threshold m)"
    and "Logger m = Some lg" and "Clean m = Some c" and "c w1 = (None, w2)"
    and "diskUsage os sys (Volume m) w2 = (Inr du2, w3)"
  shows "last (fst (snd (maintainDiskUsage os sys m w)))
           = LogCleaned (used du2 div MB) (used du div MB - used du2 div MB)
       \<and> unat (used du div MB - used du2 div MB)
           = (2 ^ 64 + unat (used du div MB) - unat (used du2 div MB)) mod 2 ^ 64
       \<and> (used du div MB < used du2 div MB \<longrightarrow>
            unat (used du div MB - used du2 div MB)
              = 2 ^ 64 - (unat (used du2 div MB) - unat (used du div MB))
            \<and> 2 ^ 64 - 2 ^ 44 < unat (used du div MB - used du2 div MB))"
proof -
  let ?a = "used du div MB" and ?b = "used du2 div MB"
  have la: "unat ?a < 2 ^ 44" and lb: "unat ?b < 2 ^ 44"
    by (rule unat_div_MB_less)+
  have sub: "unat (?a - ?b) = (if unat ?b \<le> unat ?a then unat ?a - unat ?b
                               else unat ?a + 2 ^ 64 - unat ?b)"
    by (simp add: unat_sub_if_size word_size)
  have 1: "last (fst (snd (maintainDiskUsage os sys m w))) = LogCleaned ?b (?a - ?b)"
    by (simp add: cycle_cleaned [OF assms])
  have 2: "unat (?a - ?b) = (2 ^ 64 + unat ?a - unat ?b) mod 2 ^ 64"
    using wrap_sub_nat [of "unat ?a" "2 ^ 64" "unat ?b"] la lb by (simp add: sub)
  have 3: "?a < ?b \<longrightarrow> unat (?a - ?b) = 2 ^ 64 - (unat ?b - unat ?a)
            \<and> 2 ^ 64 - 2 ^ 44 < unat (?a - ?b)"
    using la lb by (auto simp: sub word_less_nat_alt)
  from 1 2 3 show ?thesis
    by blast
qed

text \<open>The witness: 95 MB used before the cleanup, 100 MB after it, and
  \<open>2 ^ 64 - 5\<close> megabytes reported as freed.\<close>

theorem freed_mb_wraps_witness:
  "diskUsage ''linux'' (statfs_seq [volume 25600 1280 1280, volume 25600 0 0]) ''/'' 0
     = (Inr \<lparr>all = 104857600, available = 5242880, free = 5242880, used = 99614720\<rparr>, 1)
   \<and> clean_ok (1 :: nat) = (None, 1)
   \<and> diskUsage ''linux'' (statfs_seq [volume 25600 1280 1280, volume 25600 0 0]) ''/'' 1
       = (Inr \<lparr>all = 104857600, available = 0, free = 0, used = 104857600\<rparr>, 2)
   \<and> (99614720 :: u64) div MB < 104857600 div MB
   \<and> last (fst (snd (maintainDiskUsage ''linux''
        (statfs_seq [volume 25600 1280 1280, volume 25600 0 0])
        (maintainer defaultThreshold clean_ok) 0)))
       = LogCleaned 100 18446744073709551611"
proof -
  have p: "diskUsage ''linux'' (statfs_seq [volume 25600 1280 1280, volume 25600 0 0])
             (Volume (maintainer defaultThreshold clean_ok)) 0
     = (Inr \<lparr>all = 104857600, available = 5242880, free = 5242880, used = 99614720\<rparr>, 1)"
    by (simp add: probe_seq volume_def)
  have nb: "\<not> f64_lt (f64_div (f64_of_u64 (used \<lparr>all = 104857600, available = 5242880,
                 free = 5242880, used = 99614720\<rparr> div MB))
               (f64_of_u64 (all \<lparr>all = 104857600, available = 5242880,
                 free = 5242880, used = (99614720 :: u64)\<rparr> div MB)))
             (Threshold (maintainer defaultThreshold clean_ok))"
    by (simp add: ratio_95 ratio_95_not_below maintainer_def)
  have lg: "Logger (maintainer defaultThreshold clean_ok) = Some Custom"
    and c: "Clean (maintainer defaultThreshold (clean_ok :: nat \<Rightarrow> error option \<times> nat))
              = Some clean_ok"
    by (simp_all add: maintainer_def)
  have cw: "clean_ok (1 :: nat) = (None, 1)"
    by (simp add: clean_ok_def)
  have q: "diskUsage ''linux'' (statfs_seq [volume 25600 1280 1280, volume 25600 0 0])
             (Volume (maintainer defaultThreshold clean_ok)) 1
       = (Inr \<lparr>all = 104857600, available = 0, free = 0, used = 104857600\<rparr>, 2)"
    by (simp add: probe_seq volume_def)
  have g: "(99614720 :: u64) div MB < 104857600 div MB"
    by (simp add: MB_def)
  from p cw q g freed_mb_wraps [OF p nb lg c cw q] show ?thesis
    by (simp add: maintainer_def MB_def)
qed

section \<open>Starting the maintainer\<close>

text \<open>
  C8. With a nil cleanup callback \<open>Maintain\<close> panics at once: the maintainer is as it was
  (no default has been applied), nothing has been probed or logged, and the world is unchanged.
\<close>

theorem Maintain_nil_Clean_panics:
  assumes "Clean m = None"
  shows "Maintain os sys m sched w = (Panicked ''nil Clean function'', m, [], w)"
  using assms by (simp add: Maintain_def)

theorem Maintain_nil_Clean_panics_witness:
  "Clean (zero_Maintainer :: unit Maintainer) = None
   \<and> Maintain ''linux'' (statfs_fixed (volume 25600 1280 1280)) zero_Maintainer [Tick, Done] ()
       = (Panicked ''nil Clean function'', zero_Maintainer, [], ())"
proof -
  have h: "Clean (zero_Maintainer :: unit Maintainer) = None"
    by (simp add: zero_Maintainer_def)
  from h Maintain_nil_Clean_panics [OF h] show ?thesis
    by simp
qed

text \<open>
  With a callback, \<open>Maintain\<close> is the first cycle and the loop run on the maintainer with
  the defaults; that maintainer is the one left behind, and the first line logged carries its
  volume, threshold and interval.
\<close>

lemma Maintain_unfold:
  assumes "Clean m \<noteq> None"
  shows "Maintain os sys m sched w =
     (case maintainDiskUsage os sys (withDefaults m) w of
        (Panics p, t, w1) \<Rightarrow>
          (Panicked p, withDefaults m,
           LogStart (Volume (withDefaults m)) (Threshold (withDefaults m))
             (CheckInterval (withDefaults m)) # t, w1)
      | (Returns err, t, w1) \<Rightarrow>
          (case maintainLoop os sys (withDefaults m) sched w1 of
             (r, t', w2) \<Rightarrow>
               (r, withDefaults m,
                LogStart (Volume (withDefaults m)) (Threshold (withDefaults m))
                  (CheckInterval (withDefaults m)) # t @ logError err
                  @ [TickerStart (CheckInterval (withDefaults m))] @ t',
                w2)))"
proof -
  define m1 where "m1 = (if Volume m = [] then m\<lparr>Volume := defaultVolume\<rparr> else m)"
  define m2 where "m2 = (if f64_le (Threshold m1) (Finite 0 0) \<or> f64_ge (Threshold m1) (Finite 1 0)
                   then m1\<lparr>Threshold := defaultThreshold\<rparr> else m1)"
  define m3 where "m3 = (if CheckInterval m2 \<le> 0
                   then m2\<lparr>CheckInterval := defaultCheckInterval\<rparr> else m2)"
  define m4 where "m4 = (if Logger m3 = None then m3\<lparr>Logger := Some NewNop\<rparr> else m3)"
  have 1: "m1 = m\<lparr>Volume := (if Volume m = [] then defaultVolume else Volume m)\<rparr>"
    by (simp add: m1_def)
  have 2: "m2 = m1\<lparr>Threshold :=
                  (if f64_le (Threshold m) (Finite 0 0) \<or> f64_ge (Threshold m) (Finite 1 0)
                   then defaultThreshold else Threshold m)\<rparr>"
    by (simp add: m2_def 1)
  have 3: "m3 = m2\<lparr>CheckInterval :=
                  (if CheckInterval m \<le> 0 then defaultCheckInterval else CheckInterval m)\<rparr>"
    by (simp add: m3_def 2 1)
  have 4: "m4 = m3\<lparr>Logger := (if Logger m = None then Some NewNop else Logger m)\<rparr>"
    by (simp add: m4_def 3 2 1)
  have m4: "m4 = withDefaults m"
    by (simp add: 4 3 2 1 withDefaults_def)
  have "Maintain os sys m sched w =
     (case maintainDiskUsage os sys m4 w of
        (Panics p, t, w1) \<Rightarrow>
          (Panicked p, m4, [LogStart (Volume m4) (Threshold m4) (CheckInterval m4)] @ t, w1)
      | (Returns err, t, w1) \<Rightarrow>
          (case maintainLoop os sys m4 sched w1 of
             (r, t', w2) \<Rightarrow>
               (r, m4,
                [LogStart (Volume m4) (Threshold m4) (CheckInterval m4)] @ t @ logError err
                  @ [TickerStart (CheckInterval m4)] @ t',
                w2)))"
    unfolding Maintain_def Let_def m4_def m3_def m2_def m1_def
    using assms by (simp only: if_False)
  then show ?thesis
    by (simp only: m4 append_Cons append_Nil)
qed

lemma Maintain_applies_defaults:
  assumes "Clean m \<noteq> None"
  shows "fst (snd (Maintain os sys m sched w)) = withDefaults m"
    and "hd (fst (snd (snd (Maintain os sys m sched w)))) =
           LogStart (Volume (withDefaults m)) (Threshold (withDefaults m))
             (CheckInterval (withDefaults m))"
  by (simp_all add: Maintain_unfold [OF assms] split: prod.splits outcome.splits)

lemma withDefaults_fields:
  "Volume (withDefaults m) = (if Volume m = [] then ''/'' else Volume m)"
  "CheckInterval (withDefaults m)
     = (if CheckInterval m \<le> 0 then 600000000000 else CheckInterval m)"
  "Threshold (withDefaults m) =
     (if f64_le (Threshold m) (Finite 0 0) \<or> f64_ge (Threshold m) (Finite 1 0)
      then Finite 8106479329266893 (- 53) else Threshold m)"
  "Clean (withDefaults m) = Clean m"
  by (simp_all add: withDefaults_def defaultVolume_def defaultCheckInterval_def
      defaultThreshold_eq)

text \<open>A threshold that is a number fails the checks exactly when it is outside the open
  interval from 0 to 1.\<close>

lemma dyadic_le_iff_not_less: "dyadic_le m1 e1 m2 e2 \<longleftrightarrow> \<not> dyadic_less m2 e2 m1 e1"
  by (auto simp: dyadic_le_def dyadic_less_def min.commute)

lemma threshold_check_number:
  assumes "t \<noteq> NaN"
  shows "f64_le t (Finite 0 0) \<or> f64_ge t (Finite 1 0)
           \<longleftrightarrow> \<not> (f64_lt (Finite 0 0) t \<and> f64_lt t (Finite 1 0))"
  using assms by (cases t) (auto simp: f64_ge_def dyadic_le_iff_not_less)

lemma threshold_check_NaN:
  "\<not> (f64_le NaN (Finite 0 0) \<or> f64_ge NaN (Finite 1 0))"
  and "\<not> (f64_lt (Finite 0 0) NaN \<and> f64_lt NaN (Finite 1 0))"
  by (simp_all add: f64_ge_def)

text \<open>
  C7 fails on the code for a threshold that is a NaN. It is not in the interval from 0 to 1,
  but both comparisons of \<open>Maintain\<close> are false for it, so it is kept: the maintainer is left
  unchanged, and the first cycle, on a volume of 100 MB that is empty, runs the cleanup since
  \<open>usedRatio < m.Threshold\<close> is false as well.
\<close>

theorem Maintain_keeps_NaN_threshold:
  "Maintain ''linux'' (statfs_fixed (volume 25600 25600 25600)) (maintainer NaN clean_ok) [Done] ()
     = (Cancelled, maintainer NaN clean_ok,
        [LogStart ''/'' NaN 1000000000, Probe ''/'', LogWarn 100 0 (Finite 0 0) NaN, CleanCall,
         Probe ''/'', LogCleaned 0 0, TickerStart 1000000000, TickerStop], ())"
proof -
  have m: "Volume (maintainer NaN c) = ''/''" "Threshold (maintainer NaN c) = NaN"
    "CheckInterval (maintainer NaN c) = 1000000000" "Logger (maintainer NaN c) = Some Custom"
    "Clean (maintainer NaN c) = Some c" for c :: "unit \<Rightarrow> error option \<times> unit"
    by (simp_all add: maintainer_def)
  have d: "withDefaults (maintainer NaN clean_ok) = (maintainer NaN clean_ok :: unit Maintainer)"
    by (simp add: withDefaults_def maintainer_def f64_ge_def)
  have p: "diskUsage ''linux'' (statfs_fixed (volume 25600 25600 25600))
             (Volume (maintainer NaN clean_ok)) ()
     = (Inr \<lparr>all = 104857600, available = 104857600, free = 104857600, used = 0\<rparr>, ())"
    by (simp add: probe_volume)
  have r: "f64_div (f64_of_u64 0) (f64_of_u64 (104857600 div MB)) = Finite 0 0"
    by (simp add: MB_def f64_of_u64_def)
  have nb: "\<not> f64_lt (f64_div (f64_of_u64 (used \<lparr>all = 104857600, available = 104857600,
                 free = 104857600, used = 0\<rparr> div MB))
               (f64_of_u64 (all \<lparr>all = 104857600, available = 104857600,
                 free = 104857600, used = (0 :: u64)\<rparr> div MB)))
             (Threshold (maintainer NaN clean_ok :: unit Maintainer))"
    by (simp add: r m)
  have cw: "clean_ok () = (None, ())"
    by (simp add: clean_ok_def)
  have c: "maintainDiskUsage ''linux'' (statfs_fixed (volume 25600 25600 25600))
             (maintainer NaN clean_ok) ()
     = (Returns None,
        [Probe ''/'', LogWarn 100 0 (Finite 0 0) NaN, CleanCall, Probe ''/'', LogCleaned 0 0], ())"
    by (simp add: cycle_cleaned [OF p nb m(4) m(5) cw p] r m)
      (simp add: MB_def)
  have "Clean (maintainer NaN clean_ok :: unit Maintainer) \<noteq> None"
    by (simp add: m)
  from Maintain_unfold [OF this] show ?thesis
    by (simp add: d c m logError_def)
qed

end
